theory Spec2Isabelle
  imports Main "HOL-Library.Word" "HOL-Library.AList" "HOL-Library.Sublist"
    "HOL-Library.List_Lexorder"
begin

unbundle bit_operations_syntax

section \<open>Snapshot accessors of core/rawdb (accessors_snapshot.go)\<close>

text \<open>
  The file embeds the twenty-two accessors of \<^verbatim>\<open>core/rawdb/accessors_snapshot.go\<close>.
  Each Go function takes the database handle as its first argument; here it takes the
  key schema and the store state, and a function that writes returns the new state, or
  the reason why the process stopped.
\<close>

subsection \<open>Bytes, slices and hashes\<close>

type_synonym byte = "8 word"
type_synonym bytes = "byte list"

text \<open>
  A Go \<^verbatim>\<open>[]byte\<close> result may be \<^verbatim>\<open>nil\<close>: it is a \<open>bytes option\<close>, with
  \<open>None\<close> for \<^verbatim>\<open>nil\<close>. \<^verbatim>\<open>len\<close> of a nil slice is 0.
\<close>

type_synonym slice = "bytes option"

definition len :: "slice \<Rightarrow> nat" where
  "len data = (case data of None \<Rightarrow> 0 | Some b \<Rightarrow> length b)"

definition slice_bytes :: "slice \<Rightarrow> bytes" where
  "slice_bytes data = (case data of None \<Rightarrow> [] | Some b \<Rightarrow> b)"

definition HashLength :: nat where
  "HashLength = 32"

text \<open>
  Modelled from the spec: \<^verbatim>\<open>common.Hash\<close>, \<^verbatim>\<open>common.HashLength\<close> and
  \<^verbatim>\<open>common.BytesToHash\<close> (package \<^verbatim>\<open>common\<close> is not among the sources). The spec
  gives a state root and an account or storage hash as a 32-byte hash, so the type holds
  exactly the byte strings of length 32. \<open>BytesToHash\<close> keeps the last 32 bytes of a
  longer slice and pads a shorter one with zero bytes on the left; \<open>ReadSnapshotRoot\<close>
  calls it on slices of length 32 only, where it keeps every byte.
\<close>

typedef hash = "{b :: bytes. length b = 32}"
  by (rule exI [of _ "replicate 32 0"]) simp

definition hash_bytes :: "hash \<Rightarrow> bytes" where
  "hash_bytes h = Rep_hash h"

definition BytesToHash :: "bytes \<Rightarrow> hash" where
  "BytesToHash b =
     (let c = (if 32 < length b then drop (length b - 32) b else b)
      in Abs_hash (replicate (32 - length c) 0 @ c))"

definition emptyHash :: hash where
  "emptyHash = Abs_hash (replicate 32 0)"

subsection \<open>The key-value store\<close>

text \<open>
  Modelled from the spec: the key-value store behind \<^verbatim>\<open>ongdb.KeyValueReader\<close>,
  \<^verbatim>\<open>ongdb.KeyValueWriter\<close> and \<^verbatim>\<open>ongdb.Iteratee\<close> (package \<^verbatim>\<open>ongdb\<close> is not
  among the sources). The spec's contract is \<^verbatim>\<open>get(key) -> bytes|absent\<close>,
  \<^verbatim>\<open>put(key, value) -> ok|fail\<close>, \<^verbatim>\<open>delete(key) -> ok|fail\<close> and a range iterator
  over a key prefix, with ordered iteration.

  The state holds the entries as an association list, and for each write request the
  error the store answers it with, if any: whether a write fails is the store's
  business, and the accessors only see the answer. A failed request leaves no new
  state. \<open>Get\<close> returns the data only: every accessor drops the error that comes with it
  (\<^verbatim>\<open>data, _ := db.Get(key)\<close>), and an absent key gives a nil slice.
\<close>

type_synonym go_error = string

record store =
  entries :: "(bytes \<times> bytes) list"
  put_error :: "bytes \<Rightarrow> bytes \<Rightarrow> go_error option"
  delete_error :: "bytes \<Rightarrow> go_error option"

definition Get :: "store \<Rightarrow> bytes \<Rightarrow> slice" where
  "Get db key = map_of (entries db) key"

definition Put :: "store \<Rightarrow> bytes \<Rightarrow> bytes \<Rightarrow> go_error + store" where
  "Put db key val =
     (case put_error db key val of
        Some err \<Rightarrow> Inl err
      | None \<Rightarrow> Inr (db\<lparr>entries := AList.update key val (entries db)\<rparr>))"

definition Delete :: "store \<Rightarrow> bytes \<Rightarrow> go_error + store" where
  "Delete db key =
     (case delete_error db key of
        Some err \<Rightarrow> Inl err
      | None \<Rightarrow> Inr (db\<lparr>entries := AList.delete key (entries db)\<rparr>))"

text \<open>
  An iterator is the list of the entries it will yield, in ascending key order. The
  second argument is the start of the range within the prefix, \<open>None\<close> for Go's
  \<^verbatim>\<open>nil\<close>: the whole prefix.
\<close>

definition in_range :: "bytes \<Rightarrow> slice \<Rightarrow> bytes \<Rightarrow> bool" where
  "in_range pre start key =
     (prefix pre key \<and> (case start of None \<Rightarrow> True | Some s \<Rightarrow> pre @ s \<le> key))"

definition NewIterator :: "store \<Rightarrow> bytes \<Rightarrow> slice \<Rightarrow> (bytes \<times> bytes) list" where
  "NewIterator db pre start =
     sort_key fst (filter (\<lambda>kv. in_range pre start (fst kv)) (AList.clearjunk (entries db)))"

subsection \<open>The key schema\<close>

text \<open>
  The five fixed keys and the two leaf prefixes are declared in the package's schema
  file, which is not among the sources: they are parameters.
\<close>

record schema =
  snapshotRootKey :: bytes
  snapshotJournalKey :: bytes
  snapshotGeneratorKey :: bytes
  snapshotRecoveryKey :: bytes
  snapshotSyncStatusKey :: bytes
  SnapshotAccountPrefix :: bytes
  SnapshotStoragePrefix :: bytes

text \<open>
  Modelled from the spec: the key builders \<^verbatim>\<open>accountSnapshotKey\<close>,
  \<^verbatim>\<open>storageSnapshotKey\<close> and \<^verbatim>\<open>storageSnapshotsKey\<close> of the schema file. The
  spec's record layout gives an account leaf the key "fixed prefix + account-hash" and
  a storage leaf the key "fixed prefix + account-hash + storage-hash"; the range of one
  account's storage leaves is the storage key without its storage hash.
\<close>

definition accountSnapshotKey :: "schema \<Rightarrow> hash \<Rightarrow> bytes" where
  "accountSnapshotKey sch h = SnapshotAccountPrefix sch @ hash_bytes h"

definition storageSnapshotKey :: "schema \<Rightarrow> hash \<Rightarrow> hash \<Rightarrow> bytes" where
  "storageSnapshotKey sch accountHash storageHash =
     SnapshotStoragePrefix sch @ hash_bytes accountHash @ hash_bytes storageHash"

definition storageSnapshotsKey :: "schema \<Rightarrow> hash \<Rightarrow> bytes" where
  "storageSnapshotsKey sch accountHash = SnapshotStoragePrefix sch @ hash_bytes accountHash"

subsection \<open>Ways a call stops the process\<close>

text \<open>
  Modelled from the spec: \<^verbatim>\<open>log.Crit\<close> (package \<^verbatim>\<open>log\<close> is not among the sources).
  The spec has a failed write abort the process; \<open>Crit\<close> records the message and the
  error it was called with. \<open>IndexOutOfRange\<close> is Go's run-time panic on a slice index
  beyond the length.
\<close>

datatype fatal = Crit string go_error | IndexOutOfRange

subsection \<open>encoding/binary, big endian\<close>

text \<open>
  \<^verbatim>\<open>binary.BigEndian.Uint64\<close> and \<^verbatim>\<open>PutUint64\<close> of Go's standard library. Both
  touch index 7 first and panic on a slice shorter than 8 bytes.
\<close>

definition Uint64 :: "bytes \<Rightarrow> fatal + 64 word" where
  "Uint64 b =
     (if length b < 8 then Inl IndexOutOfRange
      else Inr (ucast (b ! 7) OR push_bit 8 (ucast (b ! 6)) OR push_bit 16 (ucast (b ! 5))
        OR push_bit 24 (ucast (b ! 4)) OR push_bit 32 (ucast (b ! 3))
        OR push_bit 40 (ucast (b ! 2)) OR push_bit 48 (ucast (b ! 1))
        OR push_bit 56 (ucast (b ! 0))))"

definition PutUint64 :: "bytes \<Rightarrow> 64 word \<Rightarrow> fatal + bytes" where
  "PutUint64 b v =
     (if length b < 8 then Inl IndexOutOfRange
      else Inr ([ucast (drop_bit 56 v), ucast (drop_bit 48 v), ucast (drop_bit 40 v),
        ucast (drop_bit 32 v), ucast (drop_bit 24 v), ucast (drop_bit 16 v),
        ucast (drop_bit 8 v), ucast v] @ drop 8 b))"

subsection \<open>The accessors\<close>

definition ReadSnapshotRoot :: "schema \<Rightarrow> store \<Rightarrow> hash" where
  "ReadSnapshotRoot sch db =
     (let data = Get db (snapshotRootKey sch)
      in if len data \<noteq> HashLength then emptyHash else BytesToHash (slice_bytes data))"

definition WriteSnapshotRoot :: "schema \<Rightarrow> store \<Rightarrow> hash \<Rightarrow> fatal + store" where
  "WriteSnapshotRoot sch db root =
     (case Put db (snapshotRootKey sch) (hash_bytes root) of
        Inl err \<Rightarrow> Inl (Crit ''Failed to store snapshot root'' err)
      | Inr db' \<Rightarrow> Inr db')"

definition DeleteSnapshotRoot :: "schema \<Rightarrow> store \<Rightarrow> fatal + store" where
  "DeleteSnapshotRoot sch db =
     (case Delete db (snapshotRootKey sch) of
        Inl err \<Rightarrow> Inl (Crit ''Failed to remove snapshot root'' err)
      | Inr db' \<Rightarrow> Inr db')"

definition ReadAccountSnapshot :: "schema \<Rightarrow> store \<Rightarrow> hash \<Rightarrow> slice" where
  "ReadAccountSnapshot sch db h = Get db (accountSnapshotKey sch h)"

definition WriteAccountSnapshot :: "schema \<Rightarrow> store \<Rightarrow> hash \<Rightarrow> bytes \<Rightarrow> fatal + store" where
  "WriteAccountSnapshot sch db h entry =
     (case Put db (accountSnapshotKey sch h) entry of
        Inl err \<Rightarrow> Inl (Crit ''Failed to store account snapshot'' err)
      | Inr db' \<Rightarrow> Inr db')"

definition DeleteAccountSnapshot :: "schema \<Rightarrow> store \<Rightarrow> hash \<Rightarrow> fatal + store" where
  "DeleteAccountSnapshot sch db h =
     (case Delete db (accountSnapshotKey sch h) of
        Inl err \<Rightarrow> Inl (Crit ''Failed to delete account snapshot'' err)
      | Inr db' \<Rightarrow> Inr db')"

definition ReadStorageSnapshot :: "schema \<Rightarrow> store \<Rightarrow> hash \<Rightarrow> hash \<Rightarrow> slice" where
  "ReadStorageSnapshot sch db accountHash storageHash =
     Get db (storageSnapshotKey sch accountHash storageHash)"

definition WriteStorageSnapshot ::
  "schema \<Rightarrow> store \<Rightarrow> hash \<Rightarrow> hash \<Rightarrow> bytes \<Rightarrow> fatal + store" where
  "WriteStorageSnapshot sch db accountHash storageHash entry =
     (case Put db (storageSnapshotKey sch accountHash storageHash) entry of
        Inl err \<Rightarrow> Inl (Crit ''Failed to store storage snapshot'' err)
      | Inr db' \<Rightarrow> Inr db')"

definition DeleteStorageSnapshot :: "schema \<Rightarrow> store \<Rightarrow> hash \<Rightarrow> hash \<Rightarrow> fatal + store" where
  "DeleteStorageSnapshot sch db accountHash storageHash =
     (case Delete db (storageSnapshotKey sch accountHash storageHash) of
        Inl err \<Rightarrow> Inl (Crit ''Failed to delete storage snapshot'' err)
      | Inr db' \<Rightarrow> Inr db')"

definition IterateStorageSnapshots :: "schema \<Rightarrow> store \<Rightarrow> hash \<Rightarrow> (bytes \<times> bytes) list" where
  "IterateStorageSnapshots sch db accountHash =
     NewIterator db (storageSnapshotsKey sch accountHash) None"

definition ReadSnapshotJournal :: "schema \<Rightarrow> store \<Rightarrow> slice" where
  "ReadSnapshotJournal sch db = Get db (snapshotJournalKey sch)"

definition WriteSnapshotJournal :: "schema \<Rightarrow> store \<Rightarrow> bytes \<Rightarrow> fatal + store" where
  "WriteSnapshotJournal sch db journal =
     (case Put db (snapshotJournalKey sch) journal of
        Inl err \<Rightarrow> Inl (Crit ''Failed to store snapshot journal'' err)
      | Inr db' \<Rightarrow> Inr db')"

definition DeleteSnapshotJournal :: "schema \<Rightarrow> store \<Rightarrow> fatal + store" where
  "DeleteSnapshotJournal sch db =
     (case Delete db (snapshotJournalKey sch) of
        Inl err \<Rightarrow> Inl (Crit ''Failed to remove snapshot journal'' err)
      | Inr db' \<Rightarrow> Inr db')"

definition ReadSnapshotGenerator :: "schema \<Rightarrow> store \<Rightarrow> slice" where
  "ReadSnapshotGenerator sch db = Get db (snapshotGeneratorKey sch)"

definition WriteSnapshotGenerator :: "schema \<Rightarrow> store \<Rightarrow> bytes \<Rightarrow> fatal + store" where
  "WriteSnapshotGenerator sch db generator =
     (case Put db (snapshotGeneratorKey sch) generator of
        Inl err \<Rightarrow> Inl (Crit ''Failed to store snapshot generator'' err)
      | Inr db' \<Rightarrow> Inr db')"

definition DeleteSnapshotGenerator :: "schema \<Rightarrow> store \<Rightarrow> fatal + store" where
  "DeleteSnapshotGenerator sch db =
     (case Delete db (snapshotGeneratorKey sch) of
        Inl err \<Rightarrow> Inl (Crit ''Failed to remove snapshot generator'' err)
      | Inr db' \<Rightarrow> Inr db')"

definition ReadSnapshotRecoveryNumber :: "schema \<Rightarrow> store \<Rightarrow> fatal + 64 word option" where
  "ReadSnapshotRecoveryNumber sch db =
     (let data = Get db (snapshotRecoveryKey sch)
      in if len data = 0 then Inr None
         else if len data \<noteq> 8 then Inr None
         else (case Uint64 (slice_bytes data) of
                 Inl p \<Rightarrow> Inl p
               | Inr number \<Rightarrow> Inr (Some number)))"

definition WriteSnapshotRecoveryNumber :: "schema \<Rightarrow> store \<Rightarrow> 64 word \<Rightarrow> fatal + store" where
  "WriteSnapshotRecoveryNumber sch db number =
     (case PutUint64 (replicate 8 0) number of
        Inl p \<Rightarrow> Inl p
      | Inr buf \<Rightarrow>
          (case Put db (snapshotRecoveryKey sch) buf of
             Inl err \<Rightarrow> Inl (Crit ''Failed to store snapshot recovery number'' err)
           | Inr db' \<Rightarrow> Inr db'))"

definition DeleteSnapshotRecoveryNumber :: "schema \<Rightarrow> store \<Rightarrow> fatal + store" where
  "DeleteSnapshotRecoveryNumber sch db =
     (case Delete db (snapshotRecoveryKey sch) of
        Inl err \<Rightarrow> Inl (Crit ''Failed to remove snapshot recovery number'' err)
      | Inr db' \<Rightarrow> Inr db')"

definition ReadSnapshotSyncStatus :: "schema \<Rightarrow> store \<Rightarrow> slice" where
  "ReadSnapshotSyncStatus sch db = Get db (snapshotSyncStatusKey sch)"

definition WriteSnapshotSyncStatus :: "schema \<Rightarrow> store \<Rightarrow> bytes \<Rightarrow> fatal + store" where
  "WriteSnapshotSyncStatus sch db status =
     (case Put db (snapshotSyncStatusKey sch) status of
        Inl err \<Rightarrow> Inl (Crit ''Failed to store snapshot sync status'' err)
      | Inr db' \<Rightarrow> Inr db')"

definition DeleteSnapshotSyncStatus :: "schema \<Rightarrow> store \<Rightarrow> fatal + store" where
  "DeleteSnapshotSyncStatus sch db =
     (case Delete db (snapshotSyncStatusKey sch) of
        Inl err \<Rightarrow> Inl (Crit ''Failed to remove snapshot sync status'' err)
      | Inr db' \<Rightarrow> Inr db')"

subsection \<open>Vocabulary of the properties\<close>

text \<open>
  The value a byte string denotes when read as a big-endian number: the first byte is
  the most significant one.
\<close>

definition be_value :: "bytes \<Rightarrow> nat" where
  "be_value b = foldl (\<lambda>acc x. 256 * acc + unat x) 0 b"

text \<open>
  An accessor follows the store's answer when it stops the process through \<open>Crit\<close>,
  carrying the store's error, if the store answered with an error, and otherwise
  returns with the state the store operation left.
\<close>

definition follows_store :: "fatal + store \<Rightarrow> go_error + store \<Rightarrow> bool" where
  "follows_store res answer =
     (case answer of
        Inl err \<Rightarrow> (case res of Inl (Crit msg e) \<Rightarrow> e = err | _ \<Rightarrow> False)
      | Inr db' \<Rightarrow> res = Inr db')"

subsection \<open>Example schema and stores\<close>

definition demo_schema :: schema where
  "demo_schema = \<lparr>snapshotRootKey = [1], snapshotJournalKey = [2],
     snapshotGeneratorKey = [3], snapshotRecoveryKey = [4], snapshotSyncStatusKey = [5],
     SnapshotAccountPrefix = [6], SnapshotStoragePrefix = [7]\<rparr>"

definition demo_store :: store where
  "demo_store = \<lparr>entries = [], put_error = (\<lambda>key val. None), delete_error = (\<lambda>key. None)\<rparr>"

definition broken_store :: store where
  "broken_store = \<lparr>entries = [], put_error = (\<lambda>key val. Some ''disk full''),
     delete_error = (\<lambda>key. Some ''disk full'')\<rparr>"

definition demo_root :: hash where
  "demo_root = BytesToHash (replicate 32 7)"

definition demo_hash :: hash where
  "demo_hash = BytesToHash (replicate 32 9)"

section \<open>Properties\<close>

subsection \<open>Laws of the store\<close>

lemma Get_Put_same: "Put db key val = Inr db' \<Longrightarrow> Get db' key = Some val"
  by (auto simp: Put_def Get_def update_conv' split: option.splits)

lemma Get_Put_other: "Put db key val = Inr db' \<Longrightarrow> k \<noteq> key \<Longrightarrow> Get db' k = Get db k"
  by (auto simp: Put_def Get_def update_conv' split: option.splits)

lemma Get_Delete_same: "Delete db key = Inr db' \<Longrightarrow> Get db' key = None"
  by (auto simp: Delete_def Get_def delete_conv' split: option.splits)

lemma Get_Delete_other: "Delete db key = Inr db' \<Longrightarrow> k \<noteq> key \<Longrightarrow> Get db' k = Get db k"
  by (auto simp: Delete_def Get_def delete_conv' split: option.splits)

lemma length_hash_bytes: "length (hash_bytes h) = 32"
  using Rep_hash [of h] by (simp add: hash_bytes_def)

lemma hash_bytes_BytesToHash:
  "length b = 32 \<Longrightarrow> hash_bytes (BytesToHash b) = b"
  by (simp add: hash_bytes_def BytesToHash_def Abs_hash_inverse)

lemma BytesToHash_hash_bytes: "BytesToHash (hash_bytes h) = h"
  using Rep_hash [of h] by (simp add: hash_bytes_def BytesToHash_def Rep_hash_inverse)

lemma hash_bytes_inject: "hash_bytes a = hash_bytes b \<longleftrightarrow> a = b"
  by (simp add: hash_bytes_def Rep_hash_inject)

lemma hash_bytes_emptyHash: "hash_bytes emptyHash = replicate 32 0"
  by (simp add: hash_bytes_def emptyHash_def Abs_hash_inverse)

lemma hash_bytes_demo_root: "hash_bytes demo_root = replicate 32 7"
  by (simp add: demo_root_def hash_bytes_BytesToHash)

lemma hash_bytes_demo_hash: "hash_bytes demo_hash = replicate 32 9"
  by (simp add: demo_hash_def hash_bytes_BytesToHash)

lemma demo_hashes_differ: "demo_root \<noteq> demo_hash" "demo_root \<noteq> emptyHash"
  "demo_hash \<noteq> emptyHash"
  by (simp_all add: hash_bytes_inject [symmetric] hash_bytes_demo_root hash_bytes_demo_hash
      hash_bytes_emptyHash)

subsection \<open>Big-endian encoding\<close>

lemma PutUint64_buf:
  "PutUint64 (replicate 8 0) v =
     Inr [ucast (drop_bit 56 v), ucast (drop_bit 48 v), ucast (drop_bit 40 v),
       ucast (drop_bit 32 v), ucast (drop_bit 24 v), ucast (drop_bit 16 v),
       ucast (drop_bit 8 v), ucast v]"
  by (simp add: PutUint64_def)

lemma bit_byte_of:
  "bit (push_bit k (ucast (ucast (drop_bit k (v :: 64 word)) :: byte) :: 64 word)) n
     \<longleftrightarrow> k \<le> n \<and> n < k + 8 \<and> bit v n"
  by (auto simp: bit_push_bit_iff bit_ucast_iff bit_drop_bit_eq dest: bit_imp_le_length)

lemma Uint64_of_bytes:
  "Uint64 [ucast (drop_bit 56 v), ucast (drop_bit 48 v), ucast (drop_bit 40 v),
     ucast (drop_bit 32 v), ucast (drop_bit 24 v), ucast (drop_bit 16 v),
     ucast (drop_bit 8 v), ucast v] = Inr v"
proof -
  have b0: "bit (ucast (ucast v :: byte) :: 64 word) n \<longleftrightarrow> n < 8 \<and> bit v n" for n
    using bit_byte_of [of 0 v n] by simp
  have "ucast (ucast v :: byte) OR push_bit 8 (ucast (ucast (drop_bit 8 v) :: byte))
      OR push_bit 16 (ucast (ucast (drop_bit 16 v) :: byte))
      OR push_bit 24 (ucast (ucast (drop_bit 24 v) :: byte))
      OR push_bit 32 (ucast (ucast (drop_bit 32 v) :: byte))
      OR push_bit 40 (ucast (ucast (drop_bit 40 v) :: byte))
      OR push_bit 48 (ucast (ucast (drop_bit 48 v) :: byte))
      OR push_bit 56 (ucast (ucast (drop_bit 56 v) :: byte)) = v" (is "?w = v")
  proof (rule bit_word_eqI)
    fix n assume "n < LENGTH(64)"
    then have n: "n < 64" by simp
    have "bit ?w n \<longleftrightarrow> bit v n \<and> (n < 8 \<or> 8 \<le> n \<and> n < 16 \<or> 16 \<le> n \<and> n < 24
        \<or> 24 \<le> n \<and> n < 32 \<or> 32 \<le> n \<and> n < 40 \<or> 40 \<le> n \<and> n < 48
        \<or> 48 \<le> n \<and> n < 56 \<or> 56 \<le> n \<and> n < 64)"
      unfolding bit_or_iff bit_byte_of b0 by (simp only: numeral_Bit0 [symmetric]) auto
    also have "\<dots> \<longleftrightarrow> bit v n" using n by arith
    finally show "bit ?w n \<longleftrightarrow> bit v n" .
  qed
  then show ?thesis by (simp add: Uint64_def)
qed

lemma unat_byte_of:
  "unat (ucast (drop_bit k (v :: 64 word)) :: byte) = unat v div 2 ^ k mod 256"
proof -
  have "unat (ucast (drop_bit k v) :: byte) = take_bit 8 (unat (drop_bit k v))"
    by (simp add: unsigned_ucast_eq)
  also have "\<dots> = take_bit 8 (drop_bit k (unat v))"
    by (simp only: unat_drop_bit_eq)
  also have "\<dots> = unat v div 2 ^ k mod 256"
    by (simp add: take_bit_eq_mod drop_bit_eq_div)
  finally show ?thesis .
qed

lemma be_step: "256 * ((x :: nat) div (256 * d)) + x div d mod 256 = x div d"
proof -
  have "x div (256 * d) = x div d div 256"
    by (simp add: div_mult2_eq mult.commute)
  then show ?thesis by (simp add: mult_div_mod_eq)
qed

lemma be_value_of_bytes:
  "be_value [ucast (drop_bit 56 v), ucast (drop_bit 48 v), ucast (drop_bit 40 v),
     ucast (drop_bit 32 v), ucast (drop_bit 24 v), ucast (drop_bit 16 v),
     ucast (drop_bit 8 v), ucast (v :: 64 word)] = unat v"
proof -
  define x where "x = unat v"
  have lt: "x < 2 ^ 64" using unsigned_less [of v] by (simp add: x_def)
  have u0: "unat (ucast v :: byte) = x mod 256"
    using unat_byte_of [of 0 v] by (simp add: x_def)
  have top: "x div 2 ^ 56 mod 256 = x div 2 ^ 56"
    using lt by (simp add: less_mult_imp_div_less)
  have s1: "256 * (x div 2 ^ 56) + x div 2 ^ 48 mod 256 = x div 2 ^ 48"
    using be_step [of x "2 ^ 48"] by simp
  have s2: "256 * (x div 2 ^ 48) + x div 2 ^ 40 mod 256 = x div 2 ^ 40"
    using be_step [of x "2 ^ 40"] by simp
  have s3: "256 * (x div 2 ^ 40) + x div 2 ^ 32 mod 256 = x div 2 ^ 32"
    using be_step [of x "2 ^ 32"] by simp
  have s4: "256 * (x div 2 ^ 32) + x div 2 ^ 24 mod 256 = x div 2 ^ 24"
    using be_step [of x "2 ^ 24"] by simp
  have s5: "256 * (x div 2 ^ 24) + x div 2 ^ 16 mod 256 = x div 2 ^ 16"
    using be_step [of x "2 ^ 16"] by simp
  have s6: "256 * (x div 2 ^ 16) + x div 2 ^ 8 mod 256 = x div 2 ^ 8"
    using be_step [of x "2 ^ 8"] by simp
  have s7: "256 * (x div 2 ^ 8) + x mod 256 = x"
    using be_step [of x 1] by simp
  show ?thesis
    unfolding be_value_def
    by (simp only: foldl.simps unat_byte_of u0 x_def [symmetric] top s1 s2 s3 s4 s5 s6 s7
        mult_0_right add_0_left unsigned_0 mult_zero_right)
qed

subsection \<open>Snapshot root\<close>

text \<open>
  C2. For every state root, if \<open>WriteSnapshotRoot\<close> returns, the store holds the 32
  bytes of the root under the snapshot-root key and \<open>ReadSnapshotRoot\<close> on the new
  state returns that root.
\<close>

theorem snapshot_root_roundtrip:
  "WriteSnapshotRoot sch db root = Inr db' \<Longrightarrow>
     Get db' (snapshotRootKey sch) = Some (hash_bytes root) \<and>
     length (hash_bytes root) = 32 \<and>
     ReadSnapshotRoot sch db' = root"
  by (auto simp: WriteSnapshotRoot_def ReadSnapshotRoot_def Let_def len_def slice_bytes_def
      HashLength_def length_hash_bytes BytesToHash_hash_bytes
      dest: Get_Put_same split: sum.splits)

theorem snapshot_root_roundtrip_witness:
  "WriteSnapshotRoot demo_schema demo_store demo_root =
     Inr (demo_store\<lparr>entries := [([1], replicate 32 7)]\<rparr>) \<and>
   ReadSnapshotRoot demo_schema (demo_store\<lparr>entries := [([1], replicate 32 7)]\<rparr>) = demo_root"
proof -
  have h: "WriteSnapshotRoot demo_schema demo_store demo_root =
      Inr (demo_store\<lparr>entries := [([1], replicate 32 7)]\<rparr>)"
    by (simp add: WriteSnapshotRoot_def Put_def demo_store_def demo_schema_def
        hash_bytes_demo_root)
  show ?thesis using h snapshot_root_roundtrip [OF h] by simp
qed

text \<open>
  C9. \<open>ReadSnapshotRoot\<close> returns the all-zero hash when no snapshot root is stored and
  when the stored blob is not 32 bytes long. It is a total function with no failing
  branch. A store with no snapshot root and the store left by writing the all-zero root
  into it hold different data under the key and read the same.
\<close>

theorem read_snapshot_root_zero_hash:
  "hash_bytes emptyHash = replicate 32 0 \<and>
   (Get db (snapshotRootKey sch) = None \<longrightarrow> ReadSnapshotRoot sch db = emptyHash) \<and>
   (\<forall>b. Get db (snapshotRootKey sch) = Some b \<and> length b \<noteq> 32 \<longrightarrow>
      ReadSnapshotRoot sch db = emptyHash) \<and>
   (\<forall>db'. Get db (snapshotRootKey sch) = None \<and> WriteSnapshotRoot sch db emptyHash = Inr db' \<longrightarrow>
      Get db' (snapshotRootKey sch) \<noteq> Get db (snapshotRootKey sch) \<and>
      ReadSnapshotRoot sch db' = ReadSnapshotRoot sch db)"
proof (intro conjI allI impI)
  show "hash_bytes emptyHash = replicate 32 0" by (rule hash_bytes_emptyHash)
next
  assume "Get db (snapshotRootKey sch) = None"
  then show "ReadSnapshotRoot sch db = emptyHash"
    by (simp add: ReadSnapshotRoot_def len_def HashLength_def)
next
  fix b assume "Get db (snapshotRootKey sch) = Some b \<and> length b \<noteq> 32"
  then show "ReadSnapshotRoot sch db = emptyHash"
    by (simp add: ReadSnapshotRoot_def len_def HashLength_def)
next
  fix db'
  assume a: "Get db (snapshotRootKey sch) = None \<and> WriteSnapshotRoot sch db emptyHash = Inr db'"
  then have p: "Put db (snapshotRootKey sch) (hash_bytes emptyHash) = Inr db'"
    by (simp add: WriteSnapshotRoot_def split: sum.splits)
  from Get_Put_same [OF p] a
  show "Get db' (snapshotRootKey sch) \<noteq> Get db (snapshotRootKey sch)" by simp
next
  fix db'
  assume a: "Get db (snapshotRootKey sch) = None \<and> WriteSnapshotRoot sch db emptyHash = Inr db'"
  then have p: "Put db (snapshotRootKey sch) (hash_bytes emptyHash) = Inr db'"
    by (simp add: WriteSnapshotRoot_def split: sum.splits)
  from Get_Put_same [OF p] a
  show "ReadSnapshotRoot sch db' = ReadSnapshotRoot sch db"
    by (simp add: ReadSnapshotRoot_def len_def slice_bytes_def HashLength_def
        length_hash_bytes BytesToHash_hash_bytes)
qed

theorem read_snapshot_root_zero_hash_witness:
  "Get demo_store (snapshotRootKey demo_schema) = None \<and>
   ReadSnapshotRoot demo_schema demo_store = emptyHash \<and>
   Get (demo_store\<lparr>entries := [([1], [1, 2, 3])]\<rparr>) (snapshotRootKey demo_schema)
     = Some [1, 2, 3] \<and>
   ReadSnapshotRoot demo_schema (demo_store\<lparr>entries := [([1], [1, 2, 3])]\<rparr>) = emptyHash \<and>
   WriteSnapshotRoot demo_schema demo_store emptyHash =
     Inr (demo_store\<lparr>entries := [([1], replicate 32 0)]\<rparr>) \<and>
   ReadSnapshotRoot demo_schema (demo_store\<lparr>entries := [([1], replicate 32 0)]\<rparr>) = emptyHash"
proof -
  have g0: "Get demo_store (snapshotRootKey demo_schema) = None"
    by (simp add: Get_def demo_store_def)
  have g1: "Get (demo_store\<lparr>entries := [([1], [1, 2, 3])]\<rparr>) (snapshotRootKey demo_schema)
      = Some [1, 2, 3]"
    by (simp add: Get_def demo_schema_def)
  have w: "WriteSnapshotRoot demo_schema demo_store emptyHash =
      Inr (demo_store\<lparr>entries := [([1], replicate 32 0)]\<rparr>)"
    by (simp add: WriteSnapshotRoot_def Put_def demo_store_def demo_schema_def
        hash_bytes_emptyHash)
  note t0 = read_snapshot_root_zero_hash [of demo_store demo_schema]
  note t1 = read_snapshot_root_zero_hash
    [of "demo_store\<lparr>entries := [([1], [1, 2, 3])]\<rparr>" demo_schema]
  from t0 g0 have r0: "ReadSnapshotRoot demo_schema demo_store = emptyHash" by blast
  from t1 g1 have r1:
    "ReadSnapshotRoot demo_schema (demo_store\<lparr>entries := [([1], [1, 2, 3])]\<rparr>) = emptyHash"
    by simp
  from t0 g0 w have r2:
    "ReadSnapshotRoot demo_schema (demo_store\<lparr>entries := [([1], replicate 32 0)]\<rparr>)
       = ReadSnapshotRoot demo_schema demo_store"
    by blast
  show ?thesis using g0 g1 w r0 r1 r2 by simp
qed

subsection \<open>Recovery number\<close>

text \<open>
  C3. For every 64-bit block number \<open>n\<close>, if \<open>WriteSnapshotRecoveryNumber\<close> returns,
  the store holds under the recovery key a blob of 8 bytes whose big-endian value is
  \<open>n\<close>, and \<open>ReadSnapshotRecoveryNumber\<close> on the new state returns a non-nil pointer
  to \<open>n\<close>.
\<close>

theorem recovery_number_roundtrip:
  "WriteSnapshotRecoveryNumber sch db n = Inr db' \<Longrightarrow>
     (\<exists>b. Get db' (snapshotRecoveryKey sch) = Some b \<and> length b = 8 \<and>
        be_value b = unat n \<and> PutUint64 (replicate 8 0) n = Inr b) \<and>
     ReadSnapshotRecoveryNumber sch db' = Inr (Some n)"
proof -
  let ?b = "[ucast (drop_bit 56 n), ucast (drop_bit 48 n), ucast (drop_bit 40 n),
     ucast (drop_bit 32 n), ucast (drop_bit 24 n), ucast (drop_bit 16 n),
     ucast (drop_bit 8 n), ucast n] :: bytes"
  assume "WriteSnapshotRecoveryNumber sch db n = Inr db'"
  then have p: "Put db (snapshotRecoveryKey sch) ?b = Inr db'"
    by (simp add: WriteSnapshotRecoveryNumber_def PutUint64_buf split: sum.splits)
  have g: "Get db' (snapshotRecoveryKey sch) = Some ?b"
    by (rule Get_Put_same [OF p])
  have r: "ReadSnapshotRecoveryNumber sch db' = Inr (Some n)"
    unfolding ReadSnapshotRecoveryNumber_def g Let_def
    by (simp add: len_def slice_bytes_def Uint64_of_bytes)
  show ?thesis
    using g r be_value_of_bytes [of n] PutUint64_buf [of n] by simp
qed

theorem recovery_number_roundtrip_witness:
  "WriteSnapshotRecoveryNumber demo_schema demo_store 258 =
     Inr (demo_store\<lparr>entries := [([4], [0, 0, 0, 0, 0, 0, 1, 2])]\<rparr>) \<and>
   ReadSnapshotRecoveryNumber demo_schema
     (demo_store\<lparr>entries := [([4], [0, 0, 0, 0, 0, 0, 1, 2])]\<rparr>) = Inr (Some 258)"
proof -
  have h: "WriteSnapshotRecoveryNumber demo_schema demo_store 258 =
      Inr (demo_store\<lparr>entries := [([4], [0, 0, 0, 0, 0, 0, 1, 2])]\<rparr>)"
    by (simp add: WriteSnapshotRecoveryNumber_def PutUint64_def Put_def demo_store_def
        demo_schema_def drop_bit_eq_div)
  show ?thesis using h recovery_number_roundtrip [OF h] by simp
qed

text \<open>
  C7. If \<open>DeleteSnapshotRecoveryNumber\<close> returns, \<open>ReadSnapshotRecoveryNumber\<close> on the
  new state returns nil, whatever the store held before.
\<close>

theorem delete_recovery_number_clears:
  "DeleteSnapshotRecoveryNumber sch db = Inr db' \<Longrightarrow>
     Get db' (snapshotRecoveryKey sch) = None \<and>
     ReadSnapshotRecoveryNumber sch db' = Inr None"
proof -
  assume "DeleteSnapshotRecoveryNumber sch db = Inr db'"
  then have d: "Delete db (snapshotRecoveryKey sch) = Inr db'"
    by (simp add: DeleteSnapshotRecoveryNumber_def split: sum.splits)
  from Get_Delete_same [OF d] show ?thesis
    by (simp add: ReadSnapshotRecoveryNumber_def len_def)
qed

theorem delete_recovery_number_clears_witness:
  "ReadSnapshotRecoveryNumber demo_schema
     (demo_store\<lparr>entries := [([4], [0, 0, 0, 0, 0, 0, 1, 2])]\<rparr>) = Inr (Some 258) \<and>
   DeleteSnapshotRecoveryNumber demo_schema
     (demo_store\<lparr>entries := [([4], [0, 0, 0, 0, 0, 0, 1, 2])]\<rparr>) = Inr demo_store \<and>
   ReadSnapshotRecoveryNumber demo_schema demo_store = Inr None"
proof -
  have r: "ReadSnapshotRecoveryNumber demo_schema
      (demo_store\<lparr>entries := [([4], [0, 0, 0, 0, 0, 0, 1, 2])]\<rparr>) = Inr (Some 258)"
    by (simp add: ReadSnapshotRecoveryNumber_def Get_def demo_schema_def len_def
        slice_bytes_def Uint64_def)
  have h: "DeleteSnapshotRecoveryNumber demo_schema
      (demo_store\<lparr>entries := [([4], [0, 0, 0, 0, 0, 0, 1, 2])]\<rparr>) = Inr demo_store"
    by (simp add: DeleteSnapshotRecoveryNumber_def Delete_def demo_store_def demo_schema_def
        AList.delete_eq)
  show ?thesis using r h delete_recovery_number_clears [OF h] by simp
qed

text \<open>
  C10. \<open>ReadSnapshotRecoveryNumber\<close> returns for every store: it never stops with a
  panic, whatever bytes are stored under the recovery key. A stored blob whose length
  is not 8, like an absent one, gives nil.
\<close>

theorem read_recovery_number_total:
  "(\<exists>r. ReadSnapshotRecoveryNumber sch db = Inr r) \<and>
   (len (Get db (snapshotRecoveryKey sch)) \<noteq> 8 \<longrightarrow>
      ReadSnapshotRecoveryNumber sch db = Inr None) \<and>
   (\<forall>b. Get db (snapshotRecoveryKey sch) = Some b \<and> length b \<noteq> 8 \<longrightarrow>
      ReadSnapshotRecoveryNumber sch db = Inr None)"
  by (auto simp: ReadSnapshotRecoveryNumber_def Let_def len_def slice_bytes_def Uint64_def
      split: option.splits)

theorem read_recovery_number_total_witness:
  "Get (demo_store\<lparr>entries := [([4], [1, 2, 3])]\<rparr>) (snapshotRecoveryKey demo_schema)
     = Some [1, 2, 3] \<and>
   ReadSnapshotRecoveryNumber demo_schema (demo_store\<lparr>entries := [([4], [1, 2, 3])]\<rparr>)
     = Inr None"
proof -
  have g: "Get (demo_store\<lparr>entries := [([4], [1, 2, 3])]\<rparr>) (snapshotRecoveryKey demo_schema)
      = Some [1, 2, 3]"
    by (simp add: Get_def demo_schema_def)
  from read_recovery_number_total
    [of demo_schema "demo_store\<lparr>entries := [([4], [1, 2, 3])]\<rparr>"] g
  show ?thesis by simp
qed

end
